theory Spec2Isabelle
  imports Main
begin

section \<open>Identifiers\<close>

text \<open>
  The managers talk to MongoDB through the native driver (\<open>this.mongo.collection(...)\<close>,
  where \<open>mongo\<close> is \<open>mongoose.connection.db\<close>), so no schema casts a value: a field
  holds exactly the value the code wrote. Two kinds of value stand for an identifier:
  a JavaScript string (what the HTTP layer hands to a manager, and what a manager stores
  when it writes its argument as it is) and an \<open>ObjectId\<close> (what \<open>insertOne\<close> generates
  for \<open>_id\<close>, and what \<open>toObjectId\<close> returns). A query filter compares by type and
  value: a string never equals an ObjectId, even one with the same 24 hex digits.
  An ObjectId is represented by its lower-case hex form. Strings are ASCII.
\<close>

datatype jsid = Str string | Oid string

definition is_hex :: "char \<Rightarrow> bool" where
  "is_hex c = (c \<in> set ''0123456789abcdefABCDEF'')"

definition lower_char :: "char \<Rightarrow> char" where
  "lower_char c =
     (case map_of (zip ''ABCDEFGHIJKLMNOPQRSTUVWXYZ'' ''abcdefghijklmnopqrstuvwxyz'') c of
        Some d \<Rightarrow> d
      | None \<Rightarrow> c)"

definition toLowerCase :: "string \<Rightarrow> string" where
  "toLowerCase s = map lower_char s"

text \<open>JavaScript truthiness of an identifier value: the empty string is falsy.\<close>

fun truthy_id :: "jsid \<Rightarrow> bool" where
  "truthy_id (Str s) = (s \<noteq> [])"
| "truthy_id (Oid h) = True"

definition truthy :: "string option \<Rightarrow> bool" where
  "truthy v = (case v of None \<Rightarrow> False | Some s \<Rightarrow> s \<noteq> [])"

definition opt_string :: "string option \<Rightarrow> string" where
  "opt_string v = (case v of None \<Rightarrow> [] | Some s \<Rightarrow> s)"

definition truthy_ref :: "jsid option \<Rightarrow> bool" where
  "truthy_ref v = (case v of None \<Rightarrow> False | Some i \<Rightarrow> truthy_id i)"

text \<open>\<open>ObjectId.isValid\<close>: a string of 24 hex digits, or an ObjectId.\<close>

fun ObjectId_isValid :: "jsid \<Rightarrow> bool" where
  "ObjectId_isValid (Str s) = (length s = 24 \<and> list_all is_hex s)"
| "ObjectId_isValid (Oid h) = True"

fun id_toString :: "jsid \<Rightarrow> string" where
  "id_toString (Str s) = s"
| "id_toString (Oid h) = h"

section \<open>Errors\<close>

text \<open>
  \<open>libs/error/codes.js\<close> and \<open>AppError.js\<close>. The constructor looks its code up in the
  table and reads \<open>error.message\<close> of the entry: for a code that the table does not
  hold the entry is \<open>undefined\<close> and the constructor itself throws a \<open>TypeError\<close>, so
  \<open>throw new AppError(c, d)\<close> throws what \<open>new_AppError c d\<close> returns. The message of
  the \<open>TypeError\<close> is the engine's, written here without its quotation marks. The
  \<open>details\<close> of an error are its keys with string, number or string-list values.
\<close>

datatype dval = DS string | DN int | DL "string list"

type_synonym details = "(string \<times> dval) list"

datatype exn =
    AppError string string nat details
  | JsError string string

fun error_code :: "exn \<Rightarrow> string" where
  "error_code (AppError c m s d) = c"
| "error_code (JsError n m) = ''''"

fun error_message :: "exn \<Rightarrow> string" where
  "error_message (AppError c m s d) = m"
| "error_message (JsError n m) = m"

fun instanceof_AppError :: "exn \<Rightarrow> bool" where
  "instanceof_AppError (AppError c m s d) = True"
| "instanceof_AppError (JsError n m) = False"

definition errorCodes :: "(string \<times> string \<times> string \<times> nat) list" where
  "errorCodes =
    [(''AUTH_REQUIRED'', ''AUTH_REQUIRED'', ''Authentication is required'', 401),
     (''INVALID_TOKEN'', ''INVALID_TOKEN'', ''Invalid or expired token'', 401),
     (''ACCESS_DENIED'', ''ACCESS_DENIED'',
        ''You do not have permission to perform this action'', 403),
     (''RESOURCE_NOT_FOUND'', ''RESOURCE_NOT_FOUND'', ''Requested resource not found'', 404),
     (''RESOURCE_EXISTS'', ''RESOURCE_EXISTS'', ''Resource already exists'', 409),
     (''INVALID_INPUT'', ''INVALID_INPUT'', ''Invalid input data'', 400),
     (''CLASSROOM_FULL'', ''CLASSROOM_FULL'', ''Classroom has reached maximum capacity'', 422),
     (''INVALID_TRANSFER'', ''INVALID_TRANSFER'', ''Student transfer request is invalid'', 422),
     (''SCHOOL_INACTIVE'', ''SCHOOL_INACTIVE'', ''School is not active'', 422),
     (''INTERNAL_ERROR'', ''INTERNAL_ERROR'', ''Internal server error occurred'', 500),
     (''DATABASE_ERROR'', ''DATABASE_ERROR'', ''Database operation failed'', 500),
     (''EXTERNAL_SERVICE_ERROR'', ''EXTERNAL_SERVICE_ERROR'',
        ''External service request failed'', 503)]"

definition new_AppError :: "string \<Rightarrow> details \<Rightarrow> exn" where
  "new_AppError errorCode d =
     (case map_of errorCodes errorCode of
        None \<Rightarrow> JsError ''TypeError'' ''Cannot read properties of undefined (reading message)''
      | Some (c, m, s) \<Rightarrow> AppError c m s d)"

text \<open>\<open>toObjectId\<close> of \<open>libs/utils.js\<close>; \<open>None\<close> is \<open>undefined\<close> or \<open>null\<close>.\<close>

definition toObjectId :: "jsid option \<Rightarrow> exn + jsid" where
  "toObjectId v =
     (case v of
        None \<Rightarrow> Inl (JsError ''Error'' ''Invalid ID format'')
      | Some i \<Rightarrow>
          if truthy_id i \<and> ObjectId_isValid i
          then Inr (Oid (toLowerCase (id_toString i)))
          else Inl (JsError ''Error'' ''Invalid ID format''))"

text \<open>
  The two shapes of \<open>catch\<close> at the end of a manager operation. The classroom manager,
  \<open>createSchool\<close> and \<open>deleteSchool\<close> rethrow an \<open>AppError\<close> and wrap anything else; the
  student manager wraps whatever it caught.
\<close>

definition wrap_database_error :: "string \<Rightarrow> details \<Rightarrow> exn \<Rightarrow> exn" where
  "wrap_database_error operation ids e =
     new_AppError ''DATABASE_ERROR''
       ([(''operation'', DS operation)] @ ids @ [(''details'', DS (error_message e))])"

definition catch_rethrow :: "string \<Rightarrow> details \<Rightarrow> exn \<Rightarrow> exn" where
  "catch_rethrow operation ids e =
     (if instanceof_AppError e then e else wrap_database_error operation ids e)"

definition catch_wrap :: "string \<Rightarrow> exn \<Rightarrow> exn" where
  "catch_wrap operation e = wrap_database_error operation [] e"

section \<open>Documents and the store\<close>

text \<open>
  One record per collection, with the fields the managers write. Dates are numbers
  (\<open>new Date()\<close> is the parameter \<open>now\<close> of an operation); a field that a document may
  lack is an option. \<open>status\<close> is the string the code compares.
\<close>

type_synonym jsobject = "(string \<times> string) list"

record school =
  s_id :: jsid
  s_name :: string
  s_address :: "jsobject option"
  s_contactInfo :: "jsobject option"
  s_adminId :: "string option"
  s_status :: string
  s_metadata :: "nat \<times> nat \<times> nat"
  s_createdAt :: nat
  s_updatedAt :: nat
  s_createdBy :: "string option"
  s_deletedAt :: "nat option"
  s_deletedBy :: "string option"
  s_deletionReason :: "string option"

record classroom =
  c_id :: jsid
  c_schoolId :: jsid
  c_name :: string
  capacity :: int
  currentStudents :: int
  resources :: "string list option"
  c_status :: string
  c_createdAt :: nat
  c_updatedAt :: nat
  c_deletedAt :: "nat option"
  c_deletedBy :: "string option"
  c_deletionReason :: "string option"

text \<open>A transfer record: \<open>{fromSchoolId, toSchoolId, date, reason}\<close>.\<close>

type_synonym transfer = "string \<times> string \<times> nat \<times> string"

record student =
  st_id :: jsid
  st_schoolId :: jsid
  st_classroomId :: "jsid option"
  firstName :: string
  lastName :: string
  email :: string
  grade :: int
  st_status :: string
  enrolledAt :: nat
  st_updatedAt :: nat
  transferHistory :: "transfer list"
  lastTransferDate :: "nat option"
  lastTransferReason :: "string option"
  deactivationReason :: "string option"
  deactivatedAt :: "nat option"
  st_deletedAt :: "nat option"
  st_deletedBy :: "string option"
  st_deletionReason :: "string option"

text \<open>
  The database: three collections in insertion order, and \<open>wlog\<close>, the write commands
  the database has carried out so far, as (collection, command), oldest first. Reads
  leave the store as it is.
\<close>

record store =
  schools :: "school list"
  classrooms :: "classroom list"
  students :: "student list"
  wlog :: "(string \<times> string) list"

subsection \<open>The driver's commands\<close>

definition findOne :: "('d \<Rightarrow> bool) \<Rightarrow> 'd list \<Rightarrow> 'd option" where
  "findOne q ds = find q ds"

definition countDocuments :: "('d \<Rightarrow> bool) \<Rightarrow> 'd list \<Rightarrow> nat" where
  "countDocuments q ds = length (filter q ds)"

text \<open>
  \<open>insertOne\<close> with the \<open>_id\<close> the driver has generated; the unique index on \<open>_id\<close>
  refuses a second document with the same \<open>_id\<close>.
\<close>

definition insertOne :: "('d \<Rightarrow> jsid) \<Rightarrow> 'd \<Rightarrow> 'd list \<Rightarrow> exn + 'd list" where
  "insertOne idf d ds =
     (if list_ex (\<lambda>x. idf x = idf d) ds
      then Inl (JsError ''MongoServerError'' ''E11000 duplicate key error'')
      else Inr (ds @ [d]))"

text \<open>\<open>updateOne\<close> and \<open>findOneAndUpdate\<close> change the first document that matches.\<close>

fun update_first :: "('d \<Rightarrow> bool) \<Rightarrow> ('d \<Rightarrow> 'd) \<Rightarrow> 'd list \<Rightarrow> 'd list" where
  "update_first q f [] = []"
| "update_first q f (d # ds) = (if q d then f d # ds else d # update_first q f ds)"

text \<open>With \<open>returnDocument: 'after'\<close> the command returns the changed document, or null.\<close>

definition returned_after :: "('d \<Rightarrow> bool) \<Rightarrow> ('d \<Rightarrow> 'd) \<Rightarrow> 'd list \<Rightarrow> 'd option" where
  "returned_after q f ds = map_option f (find q ds)"

definition updateMany :: "('d \<Rightarrow> bool) \<Rightarrow> ('d \<Rightarrow> 'd) \<Rightarrow> 'd list \<Rightarrow> 'd list" where
  "updateMany q f ds = map (\<lambda>d. if q d then f d else d) ds"

text \<open>\<open>modifiedCount\<close>: the matched documents that the update changes.\<close>

definition modifiedCount_many :: "('d \<Rightarrow> bool) \<Rightarrow> ('d \<Rightarrow> 'd) \<Rightarrow> 'd list \<Rightarrow> nat" where
  "modifiedCount_many q f ds = length (filter (\<lambda>d. q d \<and> f d \<noteq> d) ds)"

definition matchedCount_one :: "('d \<Rightarrow> bool) \<Rightarrow> 'd list \<Rightarrow> nat" where
  "matchedCount_one q ds = (case find q ds of None \<Rightarrow> 0 | Some d \<Rightarrow> 1)"

definition modifiedCount_one :: "('d \<Rightarrow> bool) \<Rightarrow> ('d \<Rightarrow> 'd) \<Rightarrow> 'd list \<Rightarrow> nat" where
  "modifiedCount_one q f ds =
     (case find q ds of None \<Rightarrow> 0 | Some d \<Rightarrow> if f d = d then 0 else 1)"

definition logged :: "string \<Rightarrow> string \<Rightarrow> store \<Rightarrow> store" where
  "logged coll cmd st = st\<lparr>wlog := wlog st @ [(coll, cmd)]\<rparr>"

text \<open>\<open>{ $inc: { currentStudents: n } }\<close> on the first classroom that matches.\<close>

definition inc_currentStudents :: "(classroom \<Rightarrow> bool) \<Rightarrow> int \<Rightarrow> store \<Rightarrow> store" where
  "inc_currentStudents q n st =
     logged ''classrooms'' ''findOneAndUpdate''
       (st\<lparr>classrooms :=
          update_first q (\<lambda>c. c\<lparr>currentStudents := currentStudents c + n\<rparr>) (classrooms st)\<rparr>)"

definition findOneAndUpdate_classrooms ::
  "(classroom \<Rightarrow> bool) \<Rightarrow> (classroom \<Rightarrow> classroom) \<Rightarrow> store \<Rightarrow> classroom option \<times> store" where
  "findOneAndUpdate_classrooms q f st =
     (returned_after q f (classrooms st),
      logged ''classrooms'' ''findOneAndUpdate''
        (st\<lparr>classrooms := update_first q f (classrooms st)\<rparr>))"

definition findOneAndUpdate_students ::
  "(student \<Rightarrow> bool) \<Rightarrow> (student \<Rightarrow> student) \<Rightarrow> store \<Rightarrow> student option \<times> store" where
  "findOneAndUpdate_students q f st =
     (returned_after q f (students st),
      logged ''students'' ''findOneAndUpdate''
        (st\<lparr>students := update_first q f (students st)\<rparr>))"

section \<open>The student manager\<close>

text \<open>
  \<open>managers/student/Student.manager.js\<close>. An operation takes the store and returns its
  result, or the exception that reaches the caller, with the store it leaves. The
  parameters \<open>now\<close> and \<open>newId\<close> are the clock and the \<open>_id\<close> the driver generates.
  \<open>cortex.publish\<close> is fire-and-forget and changes nothing here. Each operation is
  the body of its \<open>try\<close> (\<open>_try\<close>) followed by its \<open>catch\<close>. The operations that only
  read (\<open>getStudents\<close>, \<open>getStudent\<close> and their like in the other managers) are left out.
\<close>

definition enrollStudent_try ::
  "nat \<Rightarrow> string \<Rightarrow> store \<Rightarrow> string \<Rightarrow> string option \<Rightarrow> string \<Rightarrow> string \<Rightarrow> string \<Rightarrow> int
     \<Rightarrow> (exn + student option) \<times> store" where
  "enrollStudent_try now newId st schoolId classroomId fname lname mail grd =
     (case findOne (\<lambda>s. email s = mail \<and> st_status s = ''active'') (students st) of
        Some existingStudent \<Rightarrow>
          (Inl (new_AppError ''RESOURCE_EXISTS''
                  [(''resource'', DS ''Student''), (''field'', DS ''email''), (''value'', DS mail),
                   (''message'', DS ''Student with this email already exists'')]), st)
      | None \<Rightarrow>
          (case (if truthy classroomId
                 then (case toObjectId (map_option Str classroomId) of
                         Inl e \<Rightarrow> Inl e
                       | Inr oid \<Rightarrow>
                           (case findOne (\<lambda>c. c_id c = oid \<and> c_schoolId c = Str schoolId)
                                   (classrooms st) of
                              None \<Rightarrow>
                                Inl (new_AppError ''RESOURCE_NOT_FOUND''
                                       [(''resource'', DS ''Classroom''),
                                        (''id'', DS (opt_string classroomId))])
                            | Some c \<Rightarrow>
                                if currentStudents c \<ge> capacity c
                                then Inl (new_AppError ''CLASSROOM_FULL''
                                            [(''classroomId'', DS (opt_string classroomId)),
                                             (''currentCapacity'', DN (currentStudents c)),
                                             (''maxCapacity'', DN (capacity c))])
                                else Inr ()))
                 else Inr ()) of
             Inl e \<Rightarrow> (Inl e, st)
           | Inr u \<Rightarrow>
               (case insertOne st_id
                       \<lparr>st_id = Oid newId, st_schoolId = Str schoolId,
                        st_classroomId = map_option Str classroomId,
                        firstName = fname, lastName = lname, email = mail, grade = grd,
                        st_status = ''active'', enrolledAt = now, st_updatedAt = now,
                        transferHistory = [], lastTransferDate = None,
                        lastTransferReason = None, deactivationReason = None,
                        deactivatedAt = None, st_deletedAt = None, st_deletedBy = None,
                        st_deletionReason = None\<rparr>
                       (students st) of
                  Inl e \<Rightarrow> (Inl e, st)
                | Inr ss \<Rightarrow>
                    (let st1 = logged ''students'' ''insertOne'' (st\<lparr>students := ss\<rparr>);
                         student = findOne (\<lambda>s. st_id s = Oid newId) (students st1)
                     in if truthy classroomId
                        then (case toObjectId (map_option Str classroomId) of
                                Inl e \<Rightarrow> (Inl e, st1)
                              | Inr oid \<Rightarrow>
                                  (Inr student, inc_currentStudents (\<lambda>c. c_id c = oid) 1 st1))
                        else (Inr student, st1)))))"

definition enrollStudent ::
  "nat \<Rightarrow> string \<Rightarrow> store \<Rightarrow> string \<Rightarrow> string option \<Rightarrow> string \<Rightarrow> string \<Rightarrow> string \<Rightarrow> int
     \<Rightarrow> (exn + student option) \<times> store" where
  "enrollStudent now newId st schoolId classroomId fname lname mail grd =
     (case enrollStudent_try now newId st schoolId classroomId fname lname mail grd of
        (Inl e, st') \<Rightarrow> (Inl (catch_wrap ''enrollStudent'' e), st')
      | (Inr r, st') \<Rightarrow> (Inr r, st'))"

text \<open>
  \<open>updates\<close> of \<open>updateStudent\<close>: the four allowed keys, each present or not; the
  operation drops every other key before it looks at them.
\<close>

record student_updates =
  u_firstName :: "string option"
  u_lastName :: "string option"
  u_grade :: "int option"
  u_classroomId :: "string option"

definition no_student_keys :: "student_updates \<Rightarrow> bool" where
  "no_student_keys u =
     (u_firstName u = None \<and> u_lastName u = None \<and> u_grade u = None \<and> u_classroomId u = None)"

definition set_student_fields :: "student_updates \<Rightarrow> nat \<Rightarrow> student \<Rightarrow> student" where
  "set_student_fields u now s =
     s\<lparr>firstName := (case u_firstName u of None \<Rightarrow> firstName s | Some v \<Rightarrow> v),
       lastName := (case u_lastName u of None \<Rightarrow> lastName s | Some v \<Rightarrow> v),
       grade := (case u_grade u of None \<Rightarrow> grade s | Some v \<Rightarrow> v),
       st_classroomId := (case u_classroomId u of None \<Rightarrow> st_classroomId s | Some v \<Rightarrow> Some (Str v)),
       st_updatedAt := now\<rparr>"

text \<open>\<open>result.classroomId !== filteredUpdates.classroomId\<close>, the right side a string.\<close>

fun strict_neq_string :: "jsid option \<Rightarrow> string \<Rightarrow> bool" where
  "strict_neq_string (Some (Str s)) t = (s \<noteq> t)"
| "strict_neq_string (Some (Oid h)) t = True"
| "strict_neq_string None t = True"

definition updateStudent_try ::
  "nat \<Rightarrow> store \<Rightarrow> string \<Rightarrow> string \<Rightarrow> student_updates \<Rightarrow> (exn + student) \<times> store" where
  "updateStudent_try now st studentId schoolId filteredUpdates =
     (if no_student_keys filteredUpdates
      then (Inl (new_AppError ''INVALID_INPUT''
                   [(''message'', DS ''No valid update fields provided''),
                    (''allowedFields'', DL [''firstName'', ''lastName'', ''grade'', ''classroomId''])]),
            st)
      else
       (case (if truthy (u_classroomId filteredUpdates)
              then (case toObjectId (map_option Str (u_classroomId filteredUpdates)) of
                      Inl e \<Rightarrow> Inl e
                    | Inr oid \<Rightarrow>
                        (case findOne (\<lambda>c. c_id c = oid \<and> c_schoolId c = Str schoolId)
                                (classrooms st) of
                           None \<Rightarrow>
                             Inl (new_AppError ''RESOURCE_NOT_FOUND''
                                    [(''resource'', DS ''Classroom''),
                                     (''id'', DS (opt_string (u_classroomId filteredUpdates))),
                                     (''message'', DS ''Classroom not found'')])
                         | Some c \<Rightarrow>
                             if currentStudents c \<ge> capacity c
                             then Inl (new_AppError ''CLASSROOM_FULL''
                                         [(''classroomId'', DS (opt_string (u_classroomId filteredUpdates))),
                                          (''currentCapacity'', DN (currentStudents c)),
                                          (''maxCapacity'', DN (capacity c))])
                             else Inr ()))
              else Inr ()) of
          Inl e \<Rightarrow> (Inl e, st)
        | Inr u \<Rightarrow>
            (case toObjectId (Some (Str studentId)) of
               Inl e \<Rightarrow> (Inl e, st)
             | Inr sid \<Rightarrow>
                 (case findOneAndUpdate_students
                         (\<lambda>s. st_id s = sid \<and> st_schoolId s = Str schoolId)
                         (set_student_fields filteredUpdates now) st of
                    (None, st1) \<Rightarrow>
                      (Inl (new_AppError ''RESOURCE_NOT_FOUND''
                              [(''resource'', DS ''Student''), (''id'', DS studentId)]), st1)
                  | (Some result, st1) \<Rightarrow>
                      (case u_classroomId filteredUpdates of
                         None \<Rightarrow> (Inr result, st1)
                       | Some newClassroomId \<Rightarrow>
                           if newClassroomId \<noteq> [] \<and>
                              strict_neq_string (st_classroomId result) newClassroomId
                           then
                             (case (if truthy_ref (st_classroomId result)
                                    then (case toObjectId (st_classroomId result) of
                                            Inl e \<Rightarrow> Inl e
                                          | Inr old \<Rightarrow>
                                              Inr (inc_currentStudents (\<lambda>c. c_id c = old) (- 1) st1))
                                    else Inr st1) of
                                Inl e \<Rightarrow> (Inl e, st1)
                              | Inr st2 \<Rightarrow>
                                  (case toObjectId (Some (Str newClassroomId)) of
                                     Inl e \<Rightarrow> (Inl e, st2)
                                   | Inr new \<Rightarrow>
                                       (Inr result, inc_currentStudents (\<lambda>c. c_id c = new) 1 st2)))
                           else (Inr result, st1))))))"

definition updateStudent ::
  "nat \<Rightarrow> store \<Rightarrow> string \<Rightarrow> string \<Rightarrow> student_updates \<Rightarrow> (exn + student) \<times> store" where
  "updateStudent now st studentId schoolId updates =
     (case updateStudent_try now st studentId schoolId updates of
        (Inl e, st') \<Rightarrow> (Inl (catch_wrap ''updateStudent'' e), st')
      | (Inr r, st') \<Rightarrow> (Inr r, st'))"

definition transferStudent_try ::
  "nat \<Rightarrow> store \<Rightarrow> string \<Rightarrow> string \<Rightarrow> string \<Rightarrow> string \<Rightarrow> (exn + student) \<times> store" where
  "transferStudent_try now st studentId fromSchoolId toSchoolId reason =
     (case toObjectId (Some (Str studentId)) of
        Inl e \<Rightarrow> (Inl e, st)
      | Inr sid \<Rightarrow>
          (case findOne (\<lambda>s. st_id s = sid \<and> st_schoolId s = Str fromSchoolId \<and>
                              st_status s = ''active'') (students st) of
             None \<Rightarrow>
               (Inl (new_AppError ''INVALID_TRANSFER''
                       [(''reason'', DS ''Student not found in source school''),
                        (''studentId'', DS studentId), (''fromSchoolId'', DS fromSchoolId)]), st)
           | Some student \<Rightarrow>
               (case toObjectId (Some (Str toSchoolId)) of
                  Inl e \<Rightarrow> (Inl e, st)
                | Inr tid \<Rightarrow>
                    (case findOne (\<lambda>s. s_id s = tid \<and> s_status s = ''active'') (schools st) of
                       None \<Rightarrow>
                         (Inl (new_AppError ''SCHOOL_INACTIVE'' [(''schoolId'', DS toSchoolId)]), st)
                     | Some targetSchool \<Rightarrow>
                         (case findOneAndUpdate_students (\<lambda>s. st_id s = sid)
                                 (\<lambda>s. s\<lparr>st_schoolId := Str toSchoolId, st_classroomId := None,
                                        lastTransferDate := Some now,
                                        lastTransferReason := Some reason,
                                        st_updatedAt := now,
                                        transferHistory := transferHistory s @
                                          [(fromSchoolId, toSchoolId, now, reason)]\<rparr>) st of
                            (None, st1) \<Rightarrow>
                              (Inl (new_AppError ''DATABASE_ERROR''
                                      [(''operation'', DS ''transferStudent''),
                                       (''details'', DS ''Failed to update student record'')]), st1)
                          | (Some result, st1) \<Rightarrow>
                              if truthy_ref (st_classroomId student)
                              then (Inr result,
                                    inc_currentStudents
                                      (\<lambda>c. Some (c_id c) = st_classroomId student) (- 1) st1)
                              else (Inr result, st1))))))"

definition transferStudent ::
  "nat \<Rightarrow> store \<Rightarrow> string \<Rightarrow> string \<Rightarrow> string \<Rightarrow> string \<Rightarrow> (exn + student) \<times> store" where
  "transferStudent now st studentId fromSchoolId toSchoolId reason =
     (case transferStudent_try now st studentId fromSchoolId toSchoolId reason of
        (Inl e, st') \<Rightarrow> (Inl (catch_wrap ''transferStudent'' e), st')
      | (Inr r, st') \<Rightarrow> (Inr r, st'))"

definition deactivateStudent_try ::
  "nat \<Rightarrow> store \<Rightarrow> string \<Rightarrow> string \<Rightarrow> string \<Rightarrow> (exn + bool) \<times> store" where
  "deactivateStudent_try now st studentId schoolId reason =
     (case toObjectId (Some (Str studentId)) of
        Inl e \<Rightarrow> (Inl e, st)
      | Inr sid \<Rightarrow>
          (case findOne (\<lambda>s. st_id s = sid \<and> st_schoolId s = Str schoolId \<and>
                              st_status s = ''active'') (students st) of
             None \<Rightarrow>
               (Inl (new_AppError ''RESOURCE_NOT_FOUND''
                       [(''resource'', DS ''Student''), (''id'', DS studentId)]), st)
           | Some student \<Rightarrow>
               (case findOneAndUpdate_students (\<lambda>s. st_id s = sid)
                       (\<lambda>s. s\<lparr>st_status := ''inactive'', deactivationReason := Some reason,
                              deactivatedAt := Some now, st_updatedAt := now\<rparr>) st of
                  (result, st1) \<Rightarrow>
                    if truthy_ref (st_classroomId student)
                    then (case toObjectId (st_classroomId student) of
                            Inl e \<Rightarrow> (Inl e, st1)
                          | Inr cid \<Rightarrow>
                              (Inr True, inc_currentStudents (\<lambda>c. c_id c = cid) (- 1) st1))
                    else (Inr True, st1))))"

definition deactivateStudent ::
  "nat \<Rightarrow> store \<Rightarrow> string \<Rightarrow> string \<Rightarrow> string \<Rightarrow> (exn + bool) \<times> store" where
  "deactivateStudent now st studentId schoolId reason =
     (case deactivateStudent_try now st studentId schoolId reason of
        (Inl e, st') \<Rightarrow> (Inl (catch_wrap ''deactivateStudent'' e), st')
      | (Inr r, st') \<Rightarrow> (Inr r, st'))"

section \<open>The classroom manager\<close>

text \<open>\<open>ClassroomManager\<close> (the second file of \<open>managers/api/routes/school.routes.js\<close>).\<close>

definition createClassroom_try ::
  "nat \<Rightarrow> string \<Rightarrow> store \<Rightarrow> string \<Rightarrow> string \<Rightarrow> int \<Rightarrow> string list option
     \<Rightarrow> (exn + classroom option) \<times> store" where
  "createClassroom_try now newId st schoolId cname cap res =
     (case toObjectId (Some (Str schoolId)) of
        Inl e \<Rightarrow> (Inl e, st)
      | Inr sid \<Rightarrow>
          (case findOne (\<lambda>s. s_id s = sid \<and> s_status s = ''active'') (schools st) of
             None \<Rightarrow>
               (Inl (new_AppError ''SCHOOL_INACTIVE''
                       [(''schoolId'', DS schoolId),
                        (''message'', DS ''School not found or inactive'')]), st)
           | Some school \<Rightarrow>
               (case findOne (\<lambda>c. c_schoolId c = Str schoolId \<and> c_name c = cname \<and>
                                   c_status c \<noteq> ''deleted'') (classrooms st) of
                  Some existingClassroom \<Rightarrow>
                    (Inl (new_AppError ''RESOURCE_EXISTS''
                            [(''resource'', DS ''Classroom''), (''field'', DS ''name''),
                             (''value'', DS cname), (''schoolId'', DS schoolId)]), st)
                | None \<Rightarrow>
                    (case insertOne c_id
                            \<lparr>c_id = Oid newId, c_schoolId = Str schoolId, c_name = cname,
                             capacity = cap, currentStudents = 0, resources = res,
                             c_status = ''active'', c_createdAt = now, c_updatedAt = now,
                             c_deletedAt = None, c_deletedBy = None,
                             c_deletionReason = None\<rparr>
                            (classrooms st) of
                       Inl e \<Rightarrow> (Inl e, st)
                     | Inr cs \<Rightarrow>
                         (let st1 = logged ''classrooms'' ''insertOne'' (st\<lparr>classrooms := cs\<rparr>)
                          in (Inr (findOne (\<lambda>c. c_id c = Oid newId) (classrooms st1)), st1))))))"

definition createClassroom ::
  "nat \<Rightarrow> string \<Rightarrow> store \<Rightarrow> string \<Rightarrow> string \<Rightarrow> int \<Rightarrow> string list option
     \<Rightarrow> (exn + classroom option) \<times> store" where
  "createClassroom now newId st schoolId cname cap res =
     (case createClassroom_try now newId st schoolId cname cap res of
        (Inl e, st') \<Rightarrow>
          (Inl (catch_rethrow ''createClassroom'' [(''schoolId'', DS schoolId)] e), st')
      | (Inr r, st') \<Rightarrow> (Inr r, st'))"

text \<open>\<open>updates\<close> of \<open>updateClassroom\<close>: \<open>{ name, capacity, resources }\<close>, each present or not.\<close>

record classroom_updates =
  uc_name :: "string option"
  uc_capacity :: "int option"
  uc_resources :: "string list option"

text \<open>Truthiness of a number that may be absent: \<open>undefined\<close> and \<open>0\<close> are falsy.\<close>

definition truthy_num :: "int option \<Rightarrow> bool" where
  "truthy_num v = (case v of None \<Rightarrow> False | Some n \<Rightarrow> n \<noteq> 0)"

definition opt_int :: "int option \<Rightarrow> int" where
  "opt_int v = (case v of None \<Rightarrow> 0 | Some n \<Rightarrow> n)"

definition set_classroom_fields :: "classroom_updates \<Rightarrow> nat \<Rightarrow> classroom \<Rightarrow> classroom" where
  "set_classroom_fields u now c =
     c\<lparr>c_name := (if truthy (uc_name u) then opt_string (uc_name u) else c_name c),
       capacity := (if truthy_num (uc_capacity u) then opt_int (uc_capacity u) else capacity c),
       resources := (case uc_resources u of None \<Rightarrow> resources c | Some r \<Rightarrow> Some r),
       c_updatedAt := now\<rparr>"

definition updateClassroom_try ::
  "nat \<Rightarrow> store \<Rightarrow> string \<Rightarrow> string \<Rightarrow> classroom_updates \<Rightarrow> (exn + classroom) \<times> store" where
  "updateClassroom_try now st classroomId schoolId updates =
     (case toObjectId (Some (Str classroomId)) of
        Inl e \<Rightarrow> (Inl e, st)
      | Inr cid \<Rightarrow>
          (case findOne (\<lambda>c. c_id c = cid \<and> c_schoolId c = Str schoolId) (classrooms st) of
             None \<Rightarrow>
               (Inl (new_AppError ''RESOURCE_NOT_FOUND''
                       [(''resource'', DS ''Classroom''), (''id'', DS classroomId),
                        (''schoolId'', DS schoolId)]), st)
           | Some currentClassroom \<Rightarrow>
               if truthy_num (uc_capacity updates) \<and>
                  currentStudents currentClassroom > opt_int (uc_capacity updates)
               then (Inl (new_AppError ''INVALID_OPERATION''
                            [(''message'',
                              DS ''New capacity cannot be less than current number of students''),
                             (''currentStudents'', DN (currentStudents currentClassroom)),
                             (''requestedCapacity'', DN (opt_int (uc_capacity updates)))]), st)
               else if truthy (uc_name updates) \<and>
                       opt_string (uc_name updates) \<noteq> c_name currentClassroom \<and>
                       findOne (\<lambda>c. c_schoolId c = Str schoolId \<and>
                                     c_name c = opt_string (uc_name updates) \<and>
                                     c_id c \<noteq> cid \<and> c_status c \<noteq> ''deleted'')
                         (classrooms st) \<noteq> None
               then (Inl (new_AppError ''RESOURCE_EXISTS''
                            [(''resource'', DS ''Classroom''), (''field'', DS ''name''),
                             (''value'', DS (opt_string (uc_name updates))),
                             (''schoolId'', DS schoolId)]), st)
               else if \<not> truthy (uc_name updates) \<and> \<not> truthy_num (uc_capacity updates) \<and>
                       uc_resources updates = None
               then (Inl (new_AppError ''INVALID_INPUT''
                            [(''message'', DS ''No valid update fields provided''),
                             (''allowedFields'', DL [''name'', ''capacity'', ''resources''])]), st)
               else
                 (case findOneAndUpdate_classrooms
                         (\<lambda>c. c_id c = cid \<and> c_schoolId c = Str schoolId)
                         (set_classroom_fields updates now) st of
                    (None, st1) \<Rightarrow>
                      (Inl (new_AppError ''DATABASE_ERROR''
                              [(''message'', DS ''Failed to update classroom''),
                               (''classroomId'', DS classroomId),
                               (''schoolId'', DS schoolId)]), st1)
                  | (Some result, st1) \<Rightarrow> (Inr result, st1))))"

definition updateClassroom ::
  "nat \<Rightarrow> store \<Rightarrow> string \<Rightarrow> string \<Rightarrow> classroom_updates \<Rightarrow> (exn + classroom) \<times> store" where
  "updateClassroom now st classroomId schoolId updates =
     (case updateClassroom_try now st classroomId schoolId updates of
        (Inl e, st') \<Rightarrow>
          (Inl (catch_rethrow ''updateClassroom''
                  [(''classroomId'', DS classroomId), (''schoolId'', DS schoolId)] e), st')
      | (Inr r, st') \<Rightarrow> (Inr r, st'))"

text \<open>
  \<open>deleteClassroom\<close> reads the classroom by \<open>toObjectId(classroomId)\<close> and then updates
  with the filter \<open>{ _id: classroomId, schoolId }\<close>, the argument as it came.
\<close>

definition deleteClassroom_try ::
  "nat \<Rightarrow> store \<Rightarrow> string \<Rightarrow> string \<Rightarrow> (exn + bool) \<times> store" where
  "deleteClassroom_try now st classroomId schoolId =
     (case toObjectId (Some (Str classroomId)) of
        Inl e \<Rightarrow> (Inl e, st)
      | Inr cid \<Rightarrow>
          (case findOne (\<lambda>c. c_id c = cid \<and> c_schoolId c = Str schoolId) (classrooms st) of
             None \<Rightarrow>
               (Inl (new_AppError ''RESOURCE_NOT_FOUND''
                       [(''resource'', DS ''Classroom''), (''id'', DS classroomId),
                        (''schoolId'', DS schoolId)]), st)
           | Some c \<Rightarrow>
               if currentStudents c > 0
               then (Inl (new_AppError ''INVALID_OPERATION''
                            [(''message'', DS ''Cannot delete classroom with active students''),
                             (''classroomId'', DS classroomId),
                             (''currentStudents'', DN (currentStudents c))]), st)
               else
                 (case findOneAndUpdate_classrooms
                         (\<lambda>c. c_id c = Str classroomId \<and> c_schoolId c = Str schoolId)
                         (\<lambda>c. c\<lparr>c_status := ''deleted'', c_deletedAt := Some now\<rparr>) st of
                    (result, st1) \<Rightarrow> (Inr True, st1))))"

definition deleteClassroom ::
  "nat \<Rightarrow> store \<Rightarrow> string \<Rightarrow> string \<Rightarrow> (exn + bool) \<times> store" where
  "deleteClassroom now st classroomId schoolId =
     (case deleteClassroom_try now st classroomId schoolId of
        (Inl e, st') \<Rightarrow>
          (Inl (catch_rethrow ''deleteClassroom''
                  [(''classroomId'', DS classroomId), (''schoolId'', DS schoolId)] e), st')
      | (Inr r, st') \<Rightarrow> (Inr r, st'))"

section \<open>The school manager\<close>

text \<open>
  \<open>SchoolManager\<close> (\<open>managers/school/School.manager.js\<close>). The cache calls of
  \<open>createSchool\<close> and \<open>deleteSchool\<close> swallow their own failures and touch no
  collection, so they do not appear.
\<close>

definition validateSchoolExists :: "store \<Rightarrow> string \<Rightarrow> bool \<Rightarrow> exn + school" where
  "validateSchoolExists st schoolId includeSoftDeleted =
     (case toObjectId (Some (Str schoolId)) of
        Inl e \<Rightarrow> Inl e
      | Inr sid \<Rightarrow>
          (case findOne (\<lambda>s. s_id s = sid \<and>
                              (if includeSoftDeleted then True else s_status s \<noteq> ''deleted''))
                  (schools st) of
             None \<Rightarrow>
               Inl (new_AppError ''RESOURCE_NOT_FOUND''
                      [(''resource'', DS ''School''), (''id'', DS schoolId)])
           | Some school \<Rightarrow> Inr school))"

subsection \<open>createSchool\<close>

text \<open>
  \<open>String.prototype.trim\<close> on ASCII: space, tab, line feed, vertical tab, form feed and
  carriage return go from both ends.
\<close>

definition is_space :: "char \<Rightarrow> bool" where
  "is_space c = (c \<in> set [CHR 0x20, CHR 0x09, CHR 0x0A, CHR 0x0B, CHR 0x0C, CHR 0x0D])"

definition js_trim :: "string \<Rightarrow> string" where
  "js_trim s = rev (dropWhile is_space (rev (dropWhile is_space s)))"

text \<open>
  The duplicate check is \<open>findOne({ name: { $regex: new RegExp(`^${name}$`, 'i') } })\<close>:
  the name is the source of a regular expression, not a literal. The model covers the
  names in which every character is an ordinary character, a dot, or a parenthesis of a
  balanced group: an ordinary character matches itself up to the case of a letter, a
  dot matches any character but a line terminator, and a group without a quantifier
  matches what its body matches, so the parentheses themselves match no character. For
  a name with any other syntax character (backslash, \<open>^ $ | ? * + [ ] { }\<close>) or with
  unbalanced parentheses the model gives no answer (\<open>None\<close>). The pattern is written
  in JavaScript and matched by the database, and the two engines treat a line
  terminator in the subject differently (at \<open>$\<close> and under a dot): the model gives no
  answer either when the name of a school in the collection holds a line terminator.
\<close>

definition regex_syntax_char :: "char \<Rightarrow> bool" where
  "regex_syntax_char c = (c \<in> set (CHR 0x5C # ''^$.|?*+()[]{}''))"

fun parens_balanced :: "string \<Rightarrow> nat \<Rightarrow> bool" where
  "parens_balanced [] d = (d = 0)"
| "parens_balanced (c # cs) d =
     (if c = CHR ''('' then parens_balanced cs (Suc d)
      else if c = CHR '')'' then (0 < d \<and> parens_balanced cs (d - 1))
      else parens_balanced cs d)"

definition modelled_pattern :: "string \<Rightarrow> bool" where
  "modelled_pattern p =
     (list_all (\<lambda>c. c \<in> set ''.()'' \<or> \<not> regex_syntax_char c) p \<and> parens_balanced p 0)"

definition line_terminator :: "char \<Rightarrow> bool" where
  "line_terminator c = (c \<in> set [CHR 0x0A, CHR 0x0D])"

text \<open>The atoms of the pattern against the whole subject (\<open>^\<close> ... \<open>$\<close>), flag \<open>i\<close>.\<close>

fun match_atoms :: "string \<Rightarrow> string \<Rightarrow> bool" where
  "match_atoms [] [] = True"
| "match_atoms [] (y # ys) = False"
| "match_atoms (x # xs) [] = False"
| "match_atoms (x # xs) (y # ys) =
     ((if x = CHR ''.'' then \<not> line_terminator y else lower_char x = lower_char y) \<and>
      match_atoms xs ys)"

definition modelled_names :: "school list \<Rightarrow> bool" where
  "modelled_names ss = list_all (\<lambda>s. \<not> list_ex line_terminator (s_name s)) ss"

definition regex_anchored_i :: "string \<Rightarrow> string \<Rightarrow> bool" where
  "regex_anchored_i p subject =
     match_atoms (filter (\<lambda>c. c \<noteq> CHR ''('' \<and> c \<noteq> CHR '')'') p) subject"

text \<open>\<open>!obj?.[field]\<close>: the object or the field is missing, or the field is empty.\<close>

definition missing_field :: "jsobject option \<Rightarrow> string \<Rightarrow> bool" where
  "missing_field obj k = (case obj of None \<Rightarrow> True | Some a \<Rightarrow> \<not> truthy (map_of a k))"

definition createSchool_try ::
  "nat \<Rightarrow> string \<Rightarrow> store \<Rightarrow> string option \<Rightarrow> jsobject option \<Rightarrow> jsobject option \<Rightarrow> string option
     \<Rightarrow> ((exn + school) \<times> store) option" where
  "createSchool_try now newId st name address contactInfo adminId =
     (if js_trim (opt_string name) = []
      then Some (Inl (new_AppError ''VALIDATION_ERROR''
                        [(''field'', DS ''name''), (''message'', DS ''School name is required'')]),
                 st)
      else if \<not> (modelled_pattern (opt_string name) \<and> modelled_names (schools st)) then None
      else Some
       (case findOne (\<lambda>s. regex_anchored_i (opt_string name) (s_name s)) (schools st) of
          Some existingSchool \<Rightarrow>
            (Inl (new_AppError ''RESOURCE_EXISTS''
                    [(''resource'', DS ''School''), (''field'', DS ''name''),
                     (''value'', DS (opt_string name))]), st)
        | None \<Rightarrow>
            (case find (missing_field address) [''street'', ''city'', ''state'', ''zipCode''] of
               Some field \<Rightarrow>
                 (Inl (new_AppError ''VALIDATION_ERROR''
                         [(''field'', DS (''address.'' @ field)),
                          (''message'', DS (field @ '' is required in address''))]), st)
             | None \<Rightarrow>
                 if missing_field contactInfo ''email'' \<or> missing_field contactInfo ''phone''
                 then (Inl (new_AppError ''VALIDATION_ERROR''
                              [(''field'', DS ''contactInfo''),
                               (''message'',
                                DS ''Email and phone are required in contact info'')]), st)
                 else
                   (let school =
                          \<lparr>s_id = Oid newId, s_name = js_trim (opt_string name),
                           s_address = address, s_contactInfo = contactInfo,
                           s_adminId = adminId, s_status = ''active'', s_metadata = (0, 0, 0),
                           s_createdAt = now, s_updatedAt = now, s_createdBy = adminId,
                           s_deletedAt = None, s_deletedBy = None, s_deletionReason = None\<rparr>
                    in case insertOne s_id school (schools st) of
                         Inl e \<Rightarrow> (Inl e, st)
                       | Inr ss \<Rightarrow>
                           (Inr school, logged ''schools'' ''insertOne'' (st\<lparr>schools := ss\<rparr>))))))"

definition createSchool ::
  "nat \<Rightarrow> string \<Rightarrow> store \<Rightarrow> string option \<Rightarrow> jsobject option \<Rightarrow> jsobject option \<Rightarrow> string option
     \<Rightarrow> ((exn + school) \<times> store) option" where
  "createSchool now newId st name address contactInfo adminId =
     (case createSchool_try now newId st name address contactInfo adminId of
        None \<Rightarrow> None
      | Some (Inl e, st') \<Rightarrow> Some (Inl (catch_rethrow ''createSchool'' [] e), st')
      | Some (Inr r, st') \<Rightarrow> Some (Inr r, st'))"

subsection \<open>deleteSchool\<close>

text \<open>\<open>{ $set: deleteMeta }\<close> on a student, a classroom and a school.\<close>

definition deleteMeta_student :: "nat \<Rightarrow> student \<Rightarrow> student" where
  "deleteMeta_student now s =
     s\<lparr>st_status := ''deleted'', st_deletedAt := Some now, st_updatedAt := now,
       st_deletedBy := Some ''SYSTEM'', st_deletionReason := Some ''SCHOOL_DELETE''\<rparr>"

definition deleteMeta_classroom :: "nat \<Rightarrow> classroom \<Rightarrow> classroom" where
  "deleteMeta_classroom now c =
     c\<lparr>c_status := ''deleted'', c_deletedAt := Some now, c_updatedAt := now,
       c_deletedBy := Some ''SYSTEM'', c_deletionReason := Some ''SCHOOL_DELETE''\<rparr>"

definition deleteMeta_school :: "nat \<Rightarrow> school \<Rightarrow> school" where
  "deleteMeta_school now s =
     s\<lparr>s_status := ''deleted'', s_deletedAt := Some now, s_updatedAt := now,
       s_deletedBy := Some ''SYSTEM'', s_deletionReason := Some ''SCHOOL_DELETE''\<rparr>"

text \<open>
  What \<open>deleteSchool\<close> returns: \<open>deletionSummary\<close> as
  ((students before, students deleted), (classrooms before, classrooms deleted)), and the
  school document read back.
\<close>

record delete_result =
  success :: bool
  deletionSummary :: "(nat \<times> nat) \<times> (nat \<times> nat)"
  updatedSchool :: "school option"

definition deleteSchool_try :: "nat \<Rightarrow> store \<Rightarrow> string \<Rightarrow> (exn + delete_result) \<times> store" where
  "deleteSchool_try now st schoolId =
     (case validateSchoolExists st schoolId False of
        Inl e \<Rightarrow> (Inl e, st)
      | Inr school \<Rightarrow>
          (case toObjectId (Some (Str schoolId)) of
             Inl e \<Rightarrow> (Inl e, st)
           | Inr sid \<Rightarrow>
               (let studentsBefore =
                      countDocuments (\<lambda>s. st_schoolId s = sid \<and> st_status s \<noteq> ''deleted'')
                        (students st);
                    classroomsBefore =
                      countDocuments (\<lambda>c. c_schoolId c = sid \<and> c_status c \<noteq> ''deleted'')
                        (classrooms st);
                    studentsModified =
                      modifiedCount_many (\<lambda>s. st_schoolId s = sid \<and> st_status s \<noteq> ''deleted'')
                        (deleteMeta_student now) (students st);
                    st1 = logged ''students'' ''updateMany''
                            (st\<lparr>students :=
                                 updateMany (\<lambda>s. st_schoolId s = sid \<and> st_status s \<noteq> ''deleted'')
                                   (deleteMeta_student now) (students st)\<rparr>);
                    classroomsModified =
                      modifiedCount_many (\<lambda>c. c_schoolId c = sid \<and> c_status c \<noteq> ''deleted'')
                        (deleteMeta_classroom now) (classrooms st1);
                    st2 = logged ''classrooms'' ''updateMany''
                            (st1\<lparr>classrooms :=
                                  updateMany (\<lambda>c. c_schoolId c = sid \<and> c_status c \<noteq> ''deleted'')
                                    (deleteMeta_classroom now) (classrooms st1)\<rparr>);
                    matched = matchedCount_one (\<lambda>s. s_id s = sid) (schools st2);
                    modified = modifiedCount_one (\<lambda>s. s_id s = sid) (deleteMeta_school now)
                                 (schools st2);
                    st3 = logged ''schools'' ''updateOne''
                            (st2\<lparr>schools :=
                                  update_first (\<lambda>s. s_id s = sid) (deleteMeta_school now)
                                    (schools st2)\<rparr>)
                in if matched = 0
                   then (Inl (new_AppError ''DATABASE_ERROR''
                                [(''message'', DS ''Failed to delete school - school not found''),
                                 (''schoolId'', DS schoolId)]), st3)
                   else if modified = 0
                   then (Inl (new_AppError ''DATABASE_ERROR''
                                [(''message'',
                                  DS ''Failed to delete school - no modifications made''),
                                 (''schoolId'', DS schoolId),
                                 (''details'', DS ''School might already be deleted'')]), st3)
                   else (Inr \<lparr>success = True,
                              deletionSummary =
                                ((studentsBefore, studentsModified),
                                 (classroomsBefore, classroomsModified)),
                              updatedSchool = findOne (\<lambda>s. s_id s = sid) (schools st3)\<rparr>,
                         st3))))"

definition deleteSchool :: "nat \<Rightarrow> store \<Rightarrow> string \<Rightarrow> (exn + delete_result) \<times> store" where
  "deleteSchool now st schoolId =
     (case deleteSchool_try now st schoolId of
        (Inl e, st') \<Rightarrow>
          (Inl (catch_rethrow ''deleteSchool'' [(''schoolId'', DS schoolId)] e), st')
      | (Inr r, st') \<Rightarrow> (Inr r, st'))"

text \<open>The empty database.\<close>

definition empty_store :: store where
  "empty_store = \<lparr>schools = [], classrooms = [], students = [], wlog = []\<rparr>"

section \<open>Scenarios\<close>

text \<open>
  The stores of the scenarios below are built by the operations themselves, called as
  the HTTP layer calls them: every identifier is the 24-digit string of the request.
\<close>

definition school_A :: string where "school_A = ''64b000000000000000000001''"
definition school_B :: string where "school_B = ''64b000000000000000000002''"
definition school_C :: string where "school_C = ''64b000000000000000000003''"
definition room_1 :: string where "room_1 = ''64b0000000000000000000a1''"
definition room_2 :: string where "room_2 = ''64b0000000000000000000a2''"
definition pupil_1 :: string where "pupil_1 = ''64b0000000000000000000b1''"
definition pupil_2 :: string where "pupil_2 = ''64b0000000000000000000b2''"
definition pupil_3 :: string where "pupil_3 = ''64b0000000000000000000b3''"

definition address_ok :: jsobject where
  "address_ok = [(''street'', ''123 Test St''), (''city'', ''Test City''),
                 (''state'', ''TX''), (''zipCode'', ''12345'')]"

definition contact_ok :: jsobject where
  "contact_ok = [(''email'', ''test@school.com''), (''phone'', ''+1234567890'')]"

definition succeeded :: "('e + 'r) \<times> store \<Rightarrow> bool" where
  "succeeded r = (case fst r of Inl e \<Rightarrow> False | Inr v \<Rightarrow> True)"

definition created :: "(('e + 'r) \<times> store) option \<Rightarrow> store" where
  "created r = (case r of None \<Rightarrow> empty_store | Some (x, st) \<Rightarrow> st)"

text \<open>One active school, then two classrooms of capacity 1 in it.\<close>

definition db_school :: store where
  "db_school =
     created (createSchool 100 school_A empty_store (Some ''Test School'')
                (Some address_ok) (Some contact_ok) None)"

definition db_rooms :: store where
  "db_rooms =
     snd (createClassroom 102 room_2
            (snd (createClassroom 101 room_1 db_school school_A ''Room 1'' 1 None))
            school_A ''Room 2'' 1 None)"

text \<open>A student enrolled without a classroom, then moved to room 2 by \<open>updateStudent\<close>.\<close>

definition to_room_2 :: student_updates where
  "to_room_2 = \<lparr>u_firstName = None, u_lastName = None, u_grade = None,
                u_classroomId = Some room_2\<rparr>"

definition db_unseated :: store where
  "db_unseated =
     snd (enrollStudent 103 pupil_1 db_rooms school_A None ''John'' ''Doe''
            ''john.doe@test.com'' 10)"

definition db_unseated_moved :: store where
  "db_unseated_moved = snd (updateStudent 104 db_unseated pupil_1 school_A to_room_2)"

text \<open>A student enrolled into room 1, which is then full; a second one into room 2.\<close>

definition db_room_1_full :: store where
  "db_room_1_full =
     snd (enrollStudent 103 pupil_1 db_rooms school_A (Some room_1) ''John'' ''Doe''
            ''john.doe@test.com'' 10)"

definition db_both_full :: store where
  "db_both_full =
     snd (enrollStudent 104 pupil_2 db_room_1_full school_A (Some room_2) ''Jane'' ''Smith''
            ''jane.smith@test.com'' 9)"

text \<open>Scenario E: three active students and two active classrooms in school A.\<close>

definition db_scenario_E :: store where
  "db_scenario_E =
     snd (enrollStudent 105 pupil_3 db_both_full school_A None ''Ann'' ''Lee''
            ''ann.lee@test.com'' 8)"

text \<open>
  The same documents with their \<open>schoolId\<close> held as the ObjectId of the school, as a
  writer that casts references to ObjectIds would have stored them.
\<close>

definition db_scenario_E_oid :: store where
  "db_scenario_E_oid =
     db_scenario_E
       \<lparr>classrooms := map (\<lambda>c. c\<lparr>c_schoolId := Oid school_A\<rparr>) (classrooms db_scenario_E),
        students := map (\<lambda>s. s\<lparr>st_schoolId := Oid school_A\<rparr>) (students db_scenario_E)\<rparr>"

text \<open>Scenario B: a classroom of capacity 10 that holds 6 students.\<close>

definition room_of_six :: classroom where
  "room_of_six =
     \<lparr>c_id = Oid room_1, c_schoolId = Str school_A, c_name = ''Room 1'', capacity = 10,
      currentStudents = 6, resources = None, c_status = ''active'', c_createdAt = 101,
      c_updatedAt = 101, c_deletedAt = None, c_deletedBy = None, c_deletionReason = None\<rparr>"

definition db_scenario_B :: store where
  "db_scenario_B = db_school\<lparr>classrooms := [room_of_six]\<rparr>"

definition capacity_5 :: classroom_updates where
  "capacity_5 = \<lparr>uc_name = None, uc_capacity = Some 5, uc_resources = None\<rparr>"

text \<open>Scenario D: school B exists and is inactive; student 1 sits in room 1 of school A.\<close>

definition inactive_school_B :: school where
  "inactive_school_B =
     \<lparr>s_id = Oid school_B, s_name = ''Other School'', s_address = Some address_ok,
      s_contactInfo = Some contact_ok, s_adminId = None, s_status = ''inactive'',
      s_metadata = (0, 0, 0), s_createdAt = 90, s_updatedAt = 95, s_createdBy = None,
      s_deletedAt = None, s_deletedBy = None, s_deletionReason = None\<rparr>"

definition db_scenario_D :: store where
  "db_scenario_D = db_room_1_full\<lparr>schools := schools db_room_1_full @ [inactive_school_B]\<rparr>"

text \<open>Schools created one after the other, for the duplicate check of \<open>createSchool\<close>.\<close>

definition db_st_mary :: store where
  "db_st_mary =
     created (createSchool 110 school_B db_school (Some ''St Mary'')
                (Some address_ok) (Some contact_ok) None)"

definition db_lincoln :: store where
  "db_lincoln =
     created (createSchool 110 school_B db_school (Some ''Lincoln High (East)'')
                (Some address_ok) (Some contact_ok) None)"

text \<open>The failed precondition checks of \<open>enrollStudent\<close>, in the words of the claim.\<close>

definition email_in_use :: "store \<Rightarrow> string \<Rightarrow> bool" where
  "email_in_use st mail = list_ex (\<lambda>s. email s = mail \<and> st_status s = ''active'') (students st)"

definition classroom_missing :: "store \<Rightarrow> string \<Rightarrow> string \<Rightarrow> bool" where
  "classroom_missing st schoolId classroomId =
     (\<not> list_ex (\<lambda>c. c_id c = Oid (toLowerCase classroomId) \<and> c_schoolId c = Str schoolId)
          (classrooms st))"

definition classroom_full :: "store \<Rightarrow> string \<Rightarrow> string \<Rightarrow> bool" where
  "classroom_full st schoolId classroomId =
     (case find (\<lambda>c. c_id c = Oid (toLowerCase classroomId) \<and> c_schoolId c = Str schoolId)
             (classrooms st) of
        None \<Rightarrow> False
      | Some c \<Rightarrow> currentStudents c \<ge> capacity c)"

section \<open>Facts about the driver's commands and the error table\<close>

lemma new_AppError_DATABASE_ERROR:
  "new_AppError ''DATABASE_ERROR'' d
     = AppError ''DATABASE_ERROR'' ''Database operation failed'' 500 d"
  by (simp add: new_AppError_def errorCodes_def)

lemma new_AppError_RESOURCE_EXISTS:
  "new_AppError ''RESOURCE_EXISTS'' d
     = AppError ''RESOURCE_EXISTS'' ''Resource already exists'' 409 d"
  by (simp add: new_AppError_def errorCodes_def)

text \<open>
  \<open>INVALID_OPERATION\<close> and \<open>VALIDATION_ERROR\<close> are thrown by the managers but are not
  in \<open>codes.js\<close>: constructing the error throws a \<open>TypeError\<close> instead.
\<close>

lemma new_AppError_unregistered:
  "new_AppError ''INVALID_OPERATION'' d
     = JsError ''TypeError'' ''Cannot read properties of undefined (reading message)''"
  "new_AppError ''VALIDATION_ERROR'' d
     = JsError ''TypeError'' ''Cannot read properties of undefined (reading message)''"
  by (simp_all add: new_AppError_def errorCodes_def)

lemma catch_wrap_code: "error_code (catch_wrap operation e) = ''DATABASE_ERROR''"
  by (simp add: catch_wrap_def wrap_database_error_def new_AppError_DATABASE_ERROR)

lemma find_list_ex: "(find q xs = None) = (\<not> list_ex q xs)"
  by (induction xs) auto

lemma update_first_no_match: "\<not> list_ex q ds \<Longrightarrow> update_first q f ds = ds"
  by (induction ds) auto

lemma updateMany_no_match: "\<not> list_ex q ds \<Longrightarrow> updateMany q f ds = ds"
  by (induction ds) (auto simp: updateMany_def)

lemma toObjectId_Str:
  "toObjectId (Some (Str s)) = Inr oid \<Longrightarrow> oid = Oid (toLowerCase s)"
  by (auto simp: toObjectId_def split: if_splits)

text \<open>Every step that builds a scenario store succeeds.\<close>

lemma scenario_steps_succeed:
  "createSchool 100 school_A empty_store (Some ''Test School'') (Some address_ok)
     (Some contact_ok) None \<noteq> None
   \<and> succeeded (createClassroom 101 room_1 db_school school_A ''Room 1'' 1 None)
   \<and> succeeded (createClassroom 102 room_2
                  (snd (createClassroom 101 room_1 db_school school_A ''Room 1'' 1 None))
                  school_A ''Room 2'' 1 None)
   \<and> succeeded (enrollStudent 103 pupil_1 db_rooms school_A (Some room_1) ''John'' ''Doe''
                  ''john.doe@test.com'' 10)
   \<and> succeeded (enrollStudent 104 pupil_2 db_room_1_full school_A (Some room_2) ''Jane''
                  ''Smith'' ''jane.smith@test.com'' 9)
   \<and> succeeded (enrollStudent 105 pupil_3 db_both_full school_A None ''Ann'' ''Lee''
                  ''ann.lee@test.com'' 8)
   \<and> createSchool 110 school_B db_school (Some ''St Mary'') (Some address_ok)
        (Some contact_ok) None \<noteq> None
   \<and> createSchool 110 school_B db_school (Some ''Lincoln High (East)'') (Some address_ok)
        (Some contact_ok) None \<noteq> None"
  by code_simp

section \<open>The capacity invariant\<close>

text \<open>
  \<open>updateStudent\<close> compares the classroom of the document it got back with the classroom
  it has just written into that document (\<open>returnDocument: 'after'\<close>): the two are the
  same string, so the branch that moves the seat never runs, whatever the input.
\<close>

lemma updateStudent_never_touches_classrooms:
  "classrooms (snd (updateStudent now st studentId schoolId updates)) = classrooms st"
  by (auto simp: updateStudent_def updateStudent_try_def findOneAndUpdate_students_def
        returned_after_def logged_def set_student_fields_def
        split: prod.splits sum.splits option.splits if_splits)

text \<open>
  Claim C1 (for every classroom, after any sequence of completed operations run one at a
  time, \<open>0 \<le> currentStudents \<le> capacity\<close>) fails on the code. A student is enrolled
  without a classroom, moved into room 2 by \<open>updateStudent\<close> (which leaves the counter of
  room 2 at 0) and deactivated (which takes one from the counter of the student's
  classroom): every operation succeeds, and room 2 ends with \<open>currentStudents = -1\<close>.
\<close>

theorem currentStudents_below_zero_after_move_and_deactivate:
  "succeeded (enrollStudent 103 pupil_1 db_rooms school_A None ''John'' ''Doe''
                ''john.doe@test.com'' 10)
   \<and> succeeded (updateStudent 104 db_unseated pupil_1 school_A to_room_2)
   \<and> succeeded (deactivateStudent 105 db_unseated_moved pupil_1 school_A ''left the school'')
   \<and> map c_name (classrooms db_rooms) = [''Room 1'', ''Room 2'']
   \<and> map capacity (classrooms db_rooms) = [1, 1]
   \<and> map currentStudents (classrooms db_rooms) = [0, 0]
   \<and> map currentStudents (classrooms db_unseated_moved) = [0, 0]
   \<and> map currentStudents
         (classrooms (snd (deactivateStudent 105 db_unseated_moved pupil_1 school_A
                             ''left the school''))) = [0, - 1]"
  by code_simp

section \<open>Which error reaches the caller\<close>

text \<open>
  The student manager's \<open>catch\<close> wraps whatever was thrown: no exception leaves one of
  its four operations with a code other than \<open>DATABASE_ERROR\<close>.
\<close>

lemma student_manager_wraps_every_error:
  "(fst (enrollStudent now newId st schoolId classroomId fname lname mail grd) = Inl e
      \<longrightarrow> error_code e = ''DATABASE_ERROR'')
   \<and> (fst (updateStudent now st studentId schoolId updates) = Inl e
      \<longrightarrow> error_code e = ''DATABASE_ERROR'')
   \<and> (fst (transferStudent now st studentId fromSchoolId toSchoolId reason) = Inl e
      \<longrightarrow> error_code e = ''DATABASE_ERROR'')
   \<and> (fst (deactivateStudent now st studentId schoolId reason) = Inl e
      \<longrightarrow> error_code e = ''DATABASE_ERROR'')"
  by (auto simp: enrollStudent_def updateStudent_def transferStudent_def deactivateStudent_def
        catch_wrap_code split: prod.splits sum.splits)

text \<open>The classroom manager rethrows: a duplicate name reaches the caller as it was raised.\<close>

lemma createClassroom_duplicate_name_keeps_its_code:
  "createClassroom 200 pupil_1 db_rooms school_A ''Room 1'' 5 None
     = (Inl (AppError ''RESOURCE_EXISTS'' ''Resource already exists'' 409
               [(''resource'', DS ''Classroom''), (''field'', DS ''name''),
                (''value'', DS ''Room 1''), (''schoolId'', DS school_A)]),
        db_rooms)"
  by code_simp

text \<open>
  Claim C2 (a domain-rule violation reaches the caller with its own semantic kind,
  unmodified; only unexpected persistence errors become \<open>DATABASE_ERROR\<close>) fails on the
  code. \<open>enrollStudent\<close> with the email of an active student raises \<open>RESOURCE_EXISTS\<close>
  inside its \<open>try\<close>, and the caller receives \<open>DATABASE_ERROR\<close>, the message of the
  original error as its detail.
\<close>

theorem enrollStudent_duplicate_email_rewrapped:
  "fst (enrollStudent_try 104 pupil_2 db_unseated school_A None ''Jon'' ''Doe''
          ''john.doe@test.com'' 10)
     = Inl (AppError ''RESOURCE_EXISTS'' ''Resource already exists'' 409
              [(''resource'', DS ''Student''), (''field'', DS ''email''),
               (''value'', DS ''john.doe@test.com''),
               (''message'', DS ''Student with this email already exists'')])
   \<and> enrollStudent 104 pupil_2 db_unseated school_A None ''Jon'' ''Doe''
         ''john.doe@test.com'' 10
     = (Inl (AppError ''DATABASE_ERROR'' ''Database operation failed'' 500
               [(''operation'', DS ''enrollStudent''),
                (''details'', DS ''Resource already exists'')]), db_unseated)"
  by code_simp

text \<open>
  Claim C3 (scenario A: enrolling into a classroom with capacity 1 and no student
  succeeds and leaves \<open>currentStudents = 1\<close>; a second enrolment into the same classroom
  fails with \<open>CLASSROOM_FULL\<close>). The first half holds; the second enrolment fails and
  writes nothing, but the error that reaches the caller is \<open>DATABASE_ERROR\<close>.
\<close>

theorem scenario_A_second_enrolment_rewrapped:
  "map capacity (classrooms db_rooms) = [1, 1]
   \<and> map currentStudents (classrooms db_rooms) = [0, 0]
   \<and> succeeded (enrollStudent 103 pupil_1 db_rooms school_A (Some room_1) ''John'' ''Doe''
                  ''john.doe@test.com'' 10)
   \<and> map currentStudents (classrooms db_room_1_full) = [1, 0]
   \<and> enrollStudent 104 pupil_2 db_room_1_full school_A (Some room_1) ''Jane'' ''Smith''
         ''jane.smith@test.com'' 9
     = (Inl (AppError ''DATABASE_ERROR'' ''Database operation failed'' 500
               [(''operation'', DS ''enrollStudent''),
                (''details'', DS ''Classroom has reached maximum capacity'')]),
        db_room_1_full)"
  by code_simp

section \<open>The cascade of deleteSchool\<close>

text \<open>
  \<open>deleteSchool\<close> selects students and classrooms by \<open>schoolId: toObjectId(schoolId)\<close>.
  A document whose \<open>schoolId\<close> is not that ObjectId is neither counted nor changed;
  \<open>enrollStudent\<close> and \<open>createClassroom\<close> store the \<open>schoolId\<close> string they were given.
\<close>

lemma deleteSchool_misses_string_references:
  assumes "list_all (\<lambda>s. st_schoolId s \<noteq> Oid (toLowerCase schoolId)) (students st)"
      and "list_all (\<lambda>c. c_schoolId c \<noteq> Oid (toLowerCase schoolId)) (classrooms st)"
  shows "students (snd (deleteSchool now st schoolId)) = students st
         \<and> classrooms (snd (deleteSchool now st schoolId)) = classrooms st"
proof -
  have a: "\<not> list_ex (\<lambda>s. st_schoolId s = Oid (toLowerCase schoolId) \<and> st_status s \<noteq> ''deleted'')
               (students st)"
    using assms(1) by (auto simp: list_all_iff list_ex_iff)
  have b: "\<not> list_ex (\<lambda>c. c_schoolId c = Oid (toLowerCase schoolId) \<and> c_status c \<noteq> ''deleted'')
               (classrooms st)"
    using assms(2) by (auto simp: list_all_iff list_ex_iff)
  show ?thesis
    using a b
    by (auto simp: deleteSchool_def deleteSchool_try_def Let_def logged_def updateMany_no_match
          dest!: toObjectId_Str split: prod.splits sum.splits if_splits)
qed

text \<open>
  On the same documents with their \<open>schoolId\<close> held as the school's ObjectId the cascade
  does what scenario E describes.
\<close>

lemma scenario_E_with_ObjectId_references:
  "(case deleteSchool 200 db_scenario_E_oid school_A of
      (Inl e, st') \<Rightarrow> False
    | (Inr r, st') \<Rightarrow>
        deletionSummary r = ((3, 3), (2, 2))
        \<and> map st_status (students st') = [''deleted'', ''deleted'', ''deleted'']
        \<and> map c_status (classrooms st') = [''deleted'', ''deleted'']
        \<and> map s_status (schools st') = [''deleted'']
        \<and> wlog st' = wlog db_scenario_E_oid @
             [(''students'', ''updateMany''), (''classrooms'', ''updateMany''),
              (''schools'', ''updateOne'')])"
  by code_simp

text \<open>
  Claim C4 (scenario E: \<open>deleteSchool\<close> on a school with 3 active students and 2 active
  classrooms returns the summary 3/3 and 2/2, leaves all of them and the school
  \<open>deleted\<close>, and writes students, then classrooms, then the school) fails on the code
  for the students and classrooms that the managers themselves have created. The
  three writes are issued in the order of the claim and the school is marked
  \<open>deleted\<close>, but the summary is 0/0 and 0/0 and every student and classroom stays
  \<open>active\<close>.
\<close>

theorem scenario_E_cascade_misses_enrolled_students:
  "map st_schoolId (students db_scenario_E) = [Str school_A, Str school_A, Str school_A]
   \<and> map st_status (students db_scenario_E) = [''active'', ''active'', ''active'']
   \<and> map c_schoolId (classrooms db_scenario_E) = [Str school_A, Str school_A]
   \<and> map c_status (classrooms db_scenario_E) = [''active'', ''active'']
   \<and> map s_id (schools db_scenario_E) = [Oid school_A]
   \<and> map s_status (schools db_scenario_E) = [''active'']
   \<and> (case deleteSchool 200 db_scenario_E school_A of
         (Inl e, st') \<Rightarrow> False
       | (Inr r, st') \<Rightarrow>
           deletionSummary r = ((0, 0), (0, 0))
           \<and> map st_status (students st') = [''active'', ''active'', ''active'']
           \<and> map c_status (classrooms st') = [''active'', ''active'']
           \<and> map s_status (schools st') = [''deleted'']
           \<and> wlog st' = wlog db_scenario_E @
                [(''students'', ''updateMany''), (''classrooms'', ''updateMany''),
                 (''schools'', ''updateOne'')])"
  by code_simp

section \<open>Moving a student between classrooms\<close>

text \<open>
  Claim C5 (an \<open>updateStudent\<close> that changes \<open>classroomId\<close> to a classroom with spare
  capacity succeeds, takes one from the counter of the previous classroom and adds one
  to the counter of the new one; when the new classroom is full it fails with
  \<open>CLASSROOM_FULL\<close>) fails on the code. The student of room 1 is moved to the empty
  room 2: the operation succeeds and the student's document points to room 2, but both
  counters are what they were (1 and 0). When room 2 is full the operation fails and
  writes nothing, and \<open>DATABASE_ERROR\<close> reaches the caller.
\<close>

theorem updateStudent_move_leaves_both_counters:
  "map st_classroomId (students db_room_1_full) = [Some (Str room_1)]
   \<and> map capacity (classrooms db_room_1_full) = [1, 1]
   \<and> map currentStudents (classrooms db_room_1_full) = [1, 0]
   \<and> (case updateStudent 200 db_room_1_full pupil_1 school_A to_room_2 of
         (Inl e, st') \<Rightarrow> False
       | (Inr s, st') \<Rightarrow>
           st_classroomId s = Some (Str room_2)
           \<and> map st_classroomId (students st') = [Some (Str room_2)]
           \<and> map currentStudents (classrooms st') = [1, 0])
   \<and> map currentStudents (classrooms db_both_full) = [1, 1]
   \<and> updateStudent 200 db_both_full pupil_1 school_A to_room_2
       = (Inl (AppError ''DATABASE_ERROR'' ''Database operation failed'' 500
                 [(''operation'', DS ''updateStudent''),
                  (''details'', DS ''Classroom has reached maximum capacity'')]),
          db_both_full)"
  by code_simp

section \<open>The classroom manager's guards\<close>

text \<open>
  Whenever the capacity-shrink rule of \<open>updateClassroom\<close> fires, the store is left as it
  was and the caller receives \<open>DATABASE_ERROR\<close>: the \<open>INVALID_OPERATION\<close> error that
  the rule constructs cannot be constructed.
\<close>

lemma updateClassroom_capacity_below_occupancy:
  assumes "toObjectId (Some (Str classroomId)) = Inr cid"
      and "findOne (\<lambda>c. c_id c = cid \<and> c_schoolId c = Str schoolId) (classrooms st) = Some c"
      and "uc_capacity updates = Some n" and "n \<noteq> 0" and "currentStudents c > n"
  shows "updateClassroom now st classroomId schoolId updates
         = (Inl (AppError ''DATABASE_ERROR'' ''Database operation failed'' 500
                   [(''operation'', DS ''updateClassroom''),
                    (''classroomId'', DS classroomId), (''schoolId'', DS schoolId),
                    (''details'', DS ''Cannot read properties of undefined (reading message)'')]),
            st)"
  using assms
  by (simp add: updateClassroom_def updateClassroom_try_def truthy_num_def opt_int_def
        new_AppError_unregistered catch_rethrow_def wrap_database_error_def
        new_AppError_DATABASE_ERROR)

text \<open>
  Claim C6 (scenario B: \<open>updateClassroom\<close> with \<open>capacity = 5\<close> on a classroom with 6
  students fails with the capacity-shrink rule, \<open>INVALID_OPERATION\<close> or an equivalent
  kind, and leaves every field of the classroom as it was). The operation fails and the
  store, the classroom with its \<open>capacity\<close> and \<open>updatedAt\<close> included, is unchanged; the
  error that reaches the caller is \<open>DATABASE_ERROR\<close> with the message of a
  \<open>TypeError\<close>, not the kind of the rule.
\<close>

theorem scenario_B_capacity_shrink_reaches_caller_as_DATABASE_ERROR:
  "map capacity (classrooms db_scenario_B) = [10]
   \<and> map currentStudents (classrooms db_scenario_B) = [6]
   \<and> updateClassroom 200 db_scenario_B room_1 school_A capacity_5
       = (Inl (AppError ''DATABASE_ERROR'' ''Database operation failed'' 500
                 [(''operation'', DS ''updateClassroom''),
                  (''classroomId'', DS room_1), (''schoolId'', DS school_A),
                  (''details'', DS ''Cannot read properties of undefined (reading message)'')]),
          db_scenario_B)"
  by code_simp

text \<open>
  The update of \<open>deleteClassroom\<close> filters on \<open>_id: classroomId\<close>, a string: it changes
  no document whose \<open>_id\<close> is not that string, and the \<open>_id\<close> of a classroom that
  \<open>createClassroom\<close> inserted is an ObjectId.
\<close>

lemma deleteClassroom_never_marks_ObjectId_documents:
  assumes "list_all (\<lambda>c. c_id c \<noteq> Str classroomId) (classrooms st)"
  shows "classrooms (snd (deleteClassroom now st classroomId schoolId)) = classrooms st"
proof -
  have "\<not> list_ex (\<lambda>c. c_id c = Str classroomId \<and> c_schoolId c = Str schoolId) (classrooms st)"
    using assms by (auto simp: list_all_iff list_ex_iff)
  then show ?thesis
    by (auto simp: deleteClassroom_def deleteClassroom_try_def findOneAndUpdate_classrooms_def
          logged_def update_first_no_match split: prod.splits sum.splits option.splits)
qed

text \<open>
  Claim C7 (scenario C: \<open>deleteClassroom\<close> on a classroom without students succeeds and
  its status becomes \<open>deleted\<close>; on a classroom with one student it fails and the status
  is unchanged) fails on the code in its first half. On the empty room 1 the operation
  returns success, and the update it has issued matched no document: both classrooms
  are still \<open>active\<close>. On room 1 with one student the operation fails and leaves the
  store as it was.
\<close>

theorem scenario_C_deleteClassroom_leaves_status_active:
  "map currentStudents (classrooms db_rooms) = [0, 0]
   \<and> map c_status (classrooms db_rooms) = [''active'', ''active'']
   \<and> deleteClassroom 200 db_rooms room_1 school_A
       = (Inr True, logged ''classrooms'' ''findOneAndUpdate'' db_rooms)
   \<and> map c_status (classrooms (snd (deleteClassroom 200 db_rooms room_1 school_A)))
       = [''active'', ''active'']
   \<and> map currentStudents (classrooms db_room_1_full) = [1, 0]
   \<and> deleteClassroom 200 db_room_1_full room_1 school_A
       = (Inl (AppError ''DATABASE_ERROR'' ''Database operation failed'' 500
                 [(''operation'', DS ''deleteClassroom''),
                  (''classroomId'', DS room_1), (''schoolId'', DS school_A),
                  (''details'', DS ''Cannot read properties of undefined (reading message)'')]),
          db_room_1_full)"
  by code_simp

section \<open>Transfer to a school that is not active\<close>

text \<open>
  Claim C8 (scenario D: \<open>transferStudent\<close> to a school whose status is not \<open>active\<close>
  fails with \<open>SCHOOL_INACTIVE\<close> and leaves the student, the transfer history and every
  classroom counter as they were). The operation fails and the whole store is
  unchanged; \<open>SCHOOL_INACTIVE\<close> is raised inside the \<open>try\<close>, and the error that reaches
  the caller is \<open>DATABASE_ERROR\<close>.
\<close>

theorem scenario_D_transfer_rewrapped:
  "map s_id (schools db_scenario_D) = [Oid school_A, Oid school_B]
   \<and> map s_status (schools db_scenario_D) = [''active'', ''inactive'']
   \<and> fst (transferStudent_try 200 db_scenario_D pupil_1 school_A school_B
             ''family moved to another city'')
       = Inl (AppError ''SCHOOL_INACTIVE'' ''School is not active'' 422
                [(''schoolId'', DS school_B)])
   \<and> transferStudent 200 db_scenario_D pupil_1 school_A school_B
         ''family moved to another city''
       = (Inl (AppError ''DATABASE_ERROR'' ''Database operation failed'' 500
                 [(''operation'', DS ''transferStudent''),
                  (''details'', DS ''School is not active'')]),
          db_scenario_D)"
  by code_simp

section \<open>The duplicate check of createSchool\<close>

text \<open>
  For a name of ordinary characters only, the pattern \<open>^name$\<close> with flag \<open>i\<close> matches
  exactly the names that are equal to it up to the case of letters, and \<open>createSchool\<close>
  fails with \<open>RESOURCE_EXISTS\<close> exactly when a school of any status has such a name
  (the names in the collection free of line terminators).
\<close>

lemma match_atoms_plain:
  "list_all (\<lambda>c. \<not> regex_syntax_char c) p \<Longrightarrow> match_atoms p s = (toLowerCase p = toLowerCase s)"
proof (induction p arbitrary: s)
  case Nil
  then show ?case by (cases s) (auto simp: toLowerCase_def)
next
  case (Cons x xs)
  then have "x \<noteq> CHR ''.''" by (auto simp: regex_syntax_char_def)
  with Cons show ?case by (cases s) (auto simp: toLowerCase_def)
qed

lemma parens_balanced_plain:
  "list_all (\<lambda>c. \<not> regex_syntax_char c) p \<Longrightarrow> parens_balanced p d = (d = 0)"
  by (induction p arbitrary: d) (auto simp: regex_syntax_char_def)

lemma filter_parens_plain:
  "list_all (\<lambda>c. \<not> regex_syntax_char c) p
   \<Longrightarrow> filter (\<lambda>c. c \<noteq> CHR ''('' \<and> c \<noteq> CHR '')'') p = p"
  by (induction p) (auto simp: regex_syntax_char_def)

lemma modelled_plain:
  "list_all (\<lambda>c. \<not> regex_syntax_char c) p \<Longrightarrow> modelled_pattern p"
  by (auto simp: modelled_pattern_def parens_balanced_plain list_all_iff)

lemma createSchool_plain_name:
  assumes plain: "list_all (\<lambda>c. \<not> regex_syntax_char c) name" and ne: "js_trim name \<noteq> []"
      and names: "modelled_names (schools st)"
  shows "(\<exists>e st'. createSchool now newId st (Some name) address contactInfo adminId
                     = Some (Inl e, st') \<and> error_code e = ''RESOURCE_EXISTS'')
         = list_ex (\<lambda>s. toLowerCase (s_name s) = toLowerCase name) (schools st)"
proof -
  have q: "(\<lambda>s. regex_anchored_i name (s_name s))
             = (\<lambda>s. toLowerCase (s_name s) = toLowerCase name)"
    using plain by (auto simp: regex_anchored_i_def filter_parens_plain match_atoms_plain)
  show ?thesis
  proof (cases "find (\<lambda>s. toLowerCase (s_name s) = toLowerCase name) (schools st)")
    case None
    then have "\<not> list_ex (\<lambda>s. toLowerCase (s_name s) = toLowerCase name) (schools st)"
      by (simp add: find_list_ex)
    moreover have "\<not> (\<exists>e st'. createSchool now newId st (Some name) address contactInfo adminId
                     = Some (Inl e, st') \<and> error_code e = ''RESOURCE_EXISTS'')"
      using None plain ne names
      by (auto simp: createSchool_def createSchool_try_def opt_string_def modelled_plain q
            findOne_def catch_rethrow_def wrap_database_error_def new_AppError_DATABASE_ERROR
            new_AppError_unregistered insertOne_def Let_def
            split: option.splits sum.splits prod.splits if_splits)
    ultimately show ?thesis by simp
  next
    case (Some s)
    then have "list_ex (\<lambda>s. toLowerCase (s_name s) = toLowerCase name) (schools st)"
      using find_list_ex[of "\<lambda>s. toLowerCase (s_name s) = toLowerCase name" "schools st"]
      by simp
    moreover have "createSchool now newId st (Some name) address contactInfo adminId
        = Some (Inl (AppError ''RESOURCE_EXISTS'' ''Resource already exists'' 409
                      [(''resource'', DS ''School''), (''field'', DS ''name''),
                       (''value'', DS name)]), st)"
      using Some plain ne names
      by (simp add: createSchool_def createSchool_try_def opt_string_def modelled_plain q
            findOne_def catch_rethrow_def new_AppError_RESOURCE_EXISTS)
    ultimately show ?thesis by simp
  qed
qed

text \<open>
  Claim C9 (\<open>createSchool\<close> fails with \<open>RESOURCE_EXISTS\<close> exactly when an existing school
  of any status has the same name up to case, and then inserts nothing) fails on the
  code for names with characters of the pattern syntax, in both directions. With a
  school \<open>St Mary\<close> in the store, creating \<open>St.Mary\<close> fails with \<open>RESOURCE_EXISTS\<close>,
  though no school has that name: the dot matches the space. With a school
  \<open>Lincoln High (East)\<close> in the store, creating \<open>Lincoln High (East)\<close> again succeeds
  and inserts a second school of that name: the parentheses are a group and match no
  character. On the failure nothing is inserted, as the claim says.
\<close>

theorem createSchool_reads_the_name_as_a_pattern:
  "map s_name (schools db_st_mary) = [''Test School'', ''St Mary'']
   \<and> createSchool 120 school_C db_st_mary (Some ''St.Mary'') (Some address_ok)
         (Some contact_ok) None
       = Some (Inl (AppError ''RESOURCE_EXISTS'' ''Resource already exists'' 409
                      [(''resource'', DS ''School''), (''field'', DS ''name''),
                       (''value'', DS ''St.Mary'')]),
               db_st_mary)
   \<and> map s_name (schools db_lincoln) = [''Test School'', ''Lincoln High (East)'']
   \<and> (case createSchool 120 school_C db_lincoln (Some ''Lincoln High (East)'')
              (Some address_ok) (Some contact_ok) None of
         Some (Inr s, st') \<Rightarrow>
           map s_name (schools st')
             = [''Test School'', ''Lincoln High (East)'', ''Lincoln High (East)'']
       | Some (Inl e, st') \<Rightarrow> False
       | None \<Rightarrow> False)"
  by code_simp

section \<open>A failed enrolment writes nothing\<close>

lemma enrollStudent_failure_writes_nothing:
  "fst (enrollStudent now newId st schoolId classroomId fname lname mail grd) = Inl e
   \<Longrightarrow> snd (enrollStudent now newId st schoolId classroomId fname lname mail grd) = st"
  by (auto simp: enrollStudent_def enrollStudent_try_def Let_def
        split: prod.splits sum.splits option.splits if_splits)

text \<open>
  Claim C10: an \<open>enrollStudent\<close> call that fails a precondition check (the email is used
  by an active student, or a classroom is given and either no classroom with that id
  exists under the school or the classroom is full) fails, inserts no student and
  changes no counter: the store after the call, its collections and the list of writes
  carried out, is the store before it.
\<close>

theorem enrollStudent_failed_check_leaves_store:
  assumes "email_in_use st mail
           \<or> (classroomId = Some cid \<and> cid \<noteq> []
               \<and> (classroom_missing st schoolId cid \<or> classroom_full st schoolId cid))"
  shows "\<exists>e. enrollStudent now newId st schoolId classroomId fname lname mail grd = (Inl e, st)"
proof -
  have "\<exists>e. enrollStudent_try now newId st schoolId classroomId fname lname mail grd
             = (Inl e, st)"
    using assms
  proof (elim disjE conjE)
    assume "email_in_use st mail"
    then obtain s where
      "find (\<lambda>s. email s = mail \<and> st_status s = ''active'') (students st) = Some s"
      by (cases "find (\<lambda>s. email s = mail \<and> st_status s = ''active'') (students st)")
         (auto simp: email_in_use_def find_list_ex)
    then show ?thesis
      by (simp add: enrollStudent_try_def findOne_def)
  next
    assume c: "classroomId = Some cid" "cid \<noteq> []" and m: "classroom_missing st schoolId cid"
    show ?thesis
    proof (cases "find (\<lambda>s. email s = mail \<and> st_status s = ''active'') (students st)")
      case (Some s)
      then show ?thesis by (simp add: enrollStudent_try_def findOne_def)
    next
      case None
      show ?thesis
      proof (cases "toObjectId (Some (Str cid))")
        case (Inl e)
        with None c show ?thesis
          by (simp add: enrollStudent_try_def findOne_def truthy_def)
      next
        case (Inr oid)
        then have "oid = Oid (toLowerCase cid)" by (rule toObjectId_Str)
        with m have
          "find (\<lambda>c. c_id c = oid \<and> c_schoolId c = Str schoolId) (classrooms st) = None"
          by (simp add: classroom_missing_def find_list_ex)
        with None c Inr show ?thesis
          by (simp add: enrollStudent_try_def findOne_def truthy_def)
      qed
    qed
  next
    assume c: "classroomId = Some cid" "cid \<noteq> []" and f: "classroom_full st schoolId cid"
    show ?thesis
    proof (cases "find (\<lambda>s. email s = mail \<and> st_status s = ''active'') (students st)")
      case (Some s)
      then show ?thesis by (simp add: enrollStudent_try_def findOne_def)
    next
      case None
      show ?thesis
      proof (cases "toObjectId (Some (Str cid))")
        case (Inl e)
        with None c show ?thesis
          by (simp add: enrollStudent_try_def findOne_def truthy_def)
      next
        case (Inr oid)
        then have o: "oid = Oid (toLowerCase cid)" by (rule toObjectId_Str)
        from f o obtain k where
          "find (\<lambda>c. c_id c = oid \<and> c_schoolId c = Str schoolId) (classrooms st) = Some k"
          "currentStudents k \<ge> capacity k"
          by (auto simp: classroom_full_def split: option.splits)
        with None c Inr show ?thesis
          by (simp add: enrollStudent_try_def findOne_def truthy_def)
      qed
    qed
  qed
  then show ?thesis
    by (auto simp: enrollStudent_def)
qed

text \<open>
  The three checks at concrete calls on the store in which room 1 is full: the email of
  the enrolled student, room 1 asked for under school B, and room 1 under school A.
\<close>

theorem enrollStudent_failed_check_leaves_store_witness:
  "email_in_use db_room_1_full ''john.doe@test.com''
   \<and> (\<exists>e. enrollStudent 104 pupil_2 db_room_1_full school_A None ''Jon'' ''Doe''
             ''john.doe@test.com'' 10 = (Inl e, db_room_1_full))
   \<and> classroom_missing db_room_1_full school_B room_1
   \<and> (\<exists>e. enrollStudent 104 pupil_2 db_room_1_full school_B (Some room_1) ''Jane'' ''Smith''
             ''jane.smith@test.com'' 9 = (Inl e, db_room_1_full))
   \<and> classroom_full db_room_1_full school_A room_1
   \<and> (\<exists>e. enrollStudent 104 pupil_2 db_room_1_full school_A (Some room_1) ''Jane'' ''Smith''
             ''jane.smith@test.com'' 9 = (Inl e, db_room_1_full))"
proof -
  have a: "email_in_use db_room_1_full ''john.doe@test.com''" by code_simp
  have b: "classroom_missing db_room_1_full school_B room_1" by code_simp
  have c: "classroom_full db_room_1_full school_A room_1" by code_simp
  have r: "room_1 \<noteq> []" by code_simp
  show ?thesis
    using a b c r
      enrollStudent_failed_check_leaves_store
        [where st = db_room_1_full and mail = "''john.doe@test.com''"
           and classroomId = None and cid = room_1 and schoolId = school_A]
      enrollStudent_failed_check_leaves_store
        [where st = db_room_1_full and mail = "''jane.smith@test.com''"
           and classroomId = "Some room_1" and cid = room_1 and schoolId = school_B]
      enrollStudent_failed_check_leaves_store
        [where st = db_room_1_full and mail = "''jane.smith@test.com''"
           and classroomId = "Some room_1" and cid = room_1 and schoolId = school_A]
    by blast
qed

end
